theory Spec2Isabelle
  imports Complex_Main
begin

section \<open>Numbers\<close>

text \<open>
  The development embeds the request handlers of \<^verbatim>\<open>src/server/routes/auth.js\<close>.
  A handler reads fields of the JSON request body, checks them for truthiness, calls the
  object-document mapper and answers with a status code and a JSON object.
  The calls of the logger change neither the store nor the answer and are left out.

  A JavaScript number is a double: a rational of the binary64 format or an infinity
  (\<^verbatim>\<open>NaN\<close> is the \<open>None\<close> of an optional number, and the two zeros are one value).
\<close>

datatype number = Fin rat | PosInfinity | NegInfinity

fun negate :: "number \<Rightarrow> number" where
  "negate (Fin x) = Fin (- x)"
| "negate PosInfinity = NegInfinity"
| "negate NegInfinity = PosInfinity"

fun bit_length :: "nat \<Rightarrow> nat" where
  "bit_length n = (if n = 0 then 0 else Suc (bit_length (n div 2)))"

fun digit_length :: "nat \<Rightarrow> nat" where
  "digit_length n = (if n = 0 then 0 else Suc (digit_length (n div 10)))"

declare bit_length.simps [simp del] digit_length.simps [simp del]

text \<open>The binary exponent of a positive rational: \<open>2 ^ e \<le> x < 2 ^ (e + 1)\<close>.\<close>

definition floor_log2 :: "rat \<Rightarrow> int" where
  "floor_log2 x =
     (if 1 \<le> x then int (bit_length (nat \<lfloor>x\<rfloor>)) - 1
      else - int (bit_length (nat (\<lceil>1 / x\<rceil> - 1))))"

definition round_half_even :: "rat \<Rightarrow> int" where
  "round_half_even y =
     (let f = \<lfloor>y\<rfloor>; r = y - of_int f
      in if r < 1 / 2 then f else if 1 / 2 < r then f + 1 else if even f then f else f + 1)"

text \<open>
  The double nearest to a rational, ties to the even significand: 53 bits of
  significand, the least exponent \<open>- 1074\<close>, and infinity from \<open>2 ^ 1024\<close> on. It is how
  the text of a number, in the JSON body or in a string, becomes a number.
\<close>

definition double_of_pos :: "rat \<Rightarrow> number" where
  "double_of_pos x =
     (let e = max (floor_log2 x - 52) (- 1074);
          m = round_half_even (x / 2 powi e);
          v = of_int m * 2 powi e
      in if 2 ^ 1024 \<le> v then PosInfinity else Fin v)"

definition to_double :: "rat \<Rightarrow> number" where
  "to_double x =
     (if x = 0 then Fin 0 else if 0 < x then double_of_pos x else negate (double_of_pos (- x)))"


section \<open>Values, documents and the store\<close>

text \<open>
  Scalar JSON values, as they appear in the numeric fields of a request body. \<open>JNum q\<close>
  is the number written \<open>q\<close> in the body; the handler sees \<open>to_double q\<close>.
\<close>

datatype jsval = JUndefined | JNull | JBool bool | JNum rat | JStr string

text \<open>
  Fields that the schemas declare with \<^verbatim>\<open>type: String\<close> are modelled as optional text:
  \<open>None\<close> is a field that is absent (or null), \<open>Some s\<close> a JSON string. Request bodies that
  carry a number, a boolean, an array or an object in a text field are outside the model.
\<close>

type_synonym text_field = "string option"

text \<open>JavaScript truthiness, the test behind every \<^verbatim>\<open>!field\<close> of the handlers.\<close>

fun truthy :: "jsval \<Rightarrow> bool" where
  "truthy JUndefined = False"
| "truthy JNull = False"
| "truthy (JBool b) = b"
| "truthy (JNum q) = (to_double q \<noteq> Fin 0)"
| "truthy (JStr s) = (s \<noteq> [])"

fun present :: "text_field \<Rightarrow> bool" where
  "present None = False"
| "present (Some s) = (s \<noteq> [])"

text \<open>The value of \<^verbatim>\<open>field || ''\<close>; on a present field it is the field's text.\<close>

fun text_or_empty :: "text_field \<Rightarrow> string" where
  "text_or_empty None = []"
| "text_or_empty (Some s) = s"

text \<open>The four schemas (lines 8 to 54). Only plans are addressed by their identifier.\<close>

record user_doc =
  u_fullname :: string
  u_email :: string
  u_password :: string
  u_role :: string
  u_goal :: text_field
  u_specialization :: text_field
  u_experience :: text_field
  u_certification :: string

record workout_doc =
  w_email :: string
  w_type :: string
  w_duration :: number
  w_calories :: number
  w_date :: string
  w_notes :: string

record metric_doc =
  m_email :: string
  m_date :: string
  m_weight :: number
  m_bmi :: number
  m_fat :: number

text \<open>The client and the text of a plan can be set to null by an update: \<open>None\<close>.\<close>

record plan_doc =
  p_id :: nat
  p_trainer :: string
  p_client :: "string option"
  p_plan :: "string option"

text \<open>
  The document store: one list per collection, in insertion order, and the next fresh
  record identifier. The store is taken to be available: the only store errors modelled
  are the schema validation errors that \<^verbatim>\<open>save\<close> raises.
\<close>

record store =
  users :: "user_doc list"
  workouts :: "workout_doc list"
  metrics :: "metric_doc list"
  plans :: "plan_doc list"
  next_id :: nat

definition empty_store :: store where
  "empty_store = \<lparr>users = [], workouts = [], metrics = [], plans = [], next_id = 0\<rparr>"

subsection \<open>Responses and the trace of store operations\<close>

datatype json =
    Val jsval
  | WorkoutDocs "workout_doc list"
  | MetricDocs "metric_doc list"
  | PlanDocs "plan_doc list"
  | Body "(string \<times> jsval) list"
  | ErrMessage

record response =
  status :: nat
  body :: "(string \<times> json) list"

text \<open>The mongoose models, and the calls a handler makes on them.\<close>

datatype model = User | Workout | Metrics | Plan

datatype store_op =
    FindOne model
  | Find model
  | Save model
  | FindByIdAndUpdate model
  | FindByIdAndDelete model

fun op_model :: "store_op \<Rightarrow> model" where
  "op_model (FindOne m) = m"
| "op_model (Find m) = m"
| "op_model (Save m) = m"
| "op_model (FindByIdAndUpdate m) = m"
| "op_model (FindByIdAndDelete m) = m"

record outcome =
  res :: response
  st :: store
  ops :: "store_op list"

text \<open>\<^verbatim>\<open>res.json\<close> leaves out the keys whose value is \<^verbatim>\<open>undefined\<close>.\<close>

definition res_json :: "(string \<times> json) list \<Rightarrow> (string \<times> json) list" where
  "res_json kvs = filter (\<lambda>kv. snd kv \<noteq> Val JUndefined) kvs"

definition reply :: "nat \<Rightarrow> (string \<times> json) list \<Rightarrow> store \<Rightarrow> store_op list \<Rightarrow> outcome" where
  "reply code kvs s trace = \<lparr>res = \<lparr>status = code, body = res_json kvs\<rparr>, st = s, ops = trace\<rparr>"

definition msg :: "string \<Rightarrow> (string \<times> json) list" where
  "msg m = [(''msg'', Val (JStr m))]"

definition server_error :: "(string \<times> json) list" where
  "server_error = [(''msg'', Val (JStr ''Server error'')), (''error'', ErrMessage)]"

definition opt_json :: "text_field \<Rightarrow> json" where
  "opt_json x = (case x of None \<Rightarrow> Val JUndefined | Some s \<Rightarrow> Val (JStr s))"

section \<open>Register\<close>

text \<open>
  What \<^verbatim>\<open>save\<close> checks on a user document, from \<^verbatim>\<open>userSchema\<close>: the required paths
  (a required string is not empty), the enumeration of \<open>role\<close>, and the paths required
  by role.
\<close>

definition validate_user :: "user_doc \<Rightarrow> bool" where
  "validate_user d \<longleftrightarrow>
     u_fullname d \<noteq> [] \<and> u_email d \<noteq> [] \<and> u_password d \<noteq> [] \<and>
     (u_role d = ''client'' \<or> u_role d = ''trainer'') \<and>
     (if u_role d = ''client'' then present (u_goal d) else True) \<and>
     (if u_role d = ''trainer'' then present (u_specialization d) \<and> present (u_experience d)
      else True)"

record register_req =
  reg_fullname :: text_field
  reg_email :: text_field
  reg_password :: text_field
  reg_role :: text_field
  reg_goal :: text_field
  reg_specialization :: text_field
  reg_experience :: text_field
  reg_certification :: text_field

text \<open>\<^verbatim>\<open>User.findOne({ email })\<close>: the first document with that email.\<close>

definition findOne_email :: "user_doc list \<Rightarrow> string \<Rightarrow> user_doc option" where
  "findOne_email us e = find (\<lambda>u. u_email u = e) us"

text \<open>The object \<^verbatim>\<open>userData\<close> (lines 111 to 125), with the schema's default for certification.\<close>

definition userData :: "register_req \<Rightarrow> user_doc" where
  "userData rq =
     (let base = \<lparr>u_fullname = text_or_empty (reg_fullname rq), u_email = text_or_empty (reg_email rq),
                  u_password = text_or_empty (reg_password rq), u_role = text_or_empty (reg_role rq),
                  u_goal = None, u_specialization = None, u_experience = None,
                  u_certification = []\<rparr>
      in if reg_role rq = Some ''client'' then base\<lparr>u_goal := reg_goal rq\<rparr>
         else if reg_role rq = Some ''trainer'' then
           base\<lparr>u_specialization := reg_specialization rq,
                u_experience := reg_experience rq,
                u_certification := text_or_empty (reg_certification rq)\<rparr>
         else base)"

definition register :: "store \<Rightarrow> register_req \<Rightarrow> outcome" where
  "register s rq =
     (if \<not> present (reg_fullname rq) \<or> \<not> present (reg_email rq) \<or>
         \<not> present (reg_password rq) \<or> \<not> present (reg_role rq)
      then reply 400 (msg ''Full name, email, password, and role are required'') s []
      else if reg_role rq = Some ''client'' \<and> \<not> present (reg_goal rq)
      then reply 400 (msg ''Fitness goal is required for client registration'') s []
      else if reg_role rq = Some ''trainer'' \<and>
              (\<not> present (reg_specialization rq) \<or> \<not> present (reg_experience rq))
      then reply 400
             (msg ''Specialization and experience are required for trainer registration'') s []
      else
        (case findOne_email (users s) (text_or_empty (reg_email rq)) of
           Some existingUser \<Rightarrow> reply 400 (msg ''User already exists'') s [FindOne User]
         | None \<Rightarrow>
             if validate_user (userData rq)
             then reply 201 (msg ''Registered successfully'')
                    (s\<lparr>users := users s @ [userData rq]\<rparr>) [FindOne User, Save User]
             else reply 500 server_error s [FindOne User, Save User]))"

section \<open>Login\<close>

record login_req =
  login_email :: text_field
  login_password :: text_field
  login_role :: text_field

text \<open>\<^verbatim>\<open>User.findOne({ email, password, role })\<close>: the first document equal on all three.\<close>

definition findOne_credentials :: "user_doc list \<Rightarrow> string \<Rightarrow> string \<Rightarrow> string \<Rightarrow> user_doc option" where
  "findOne_credentials us e p r =
     find (\<lambda>u. u_email u = e \<and> u_password u = p \<and> u_role u = r) us"

text \<open>The response object of lines 188 to 202.\<close>

definition login_response :: "user_doc \<Rightarrow> (string \<times> json) list" where
  "login_response user =
     (let response = [(''success'', Val (JBool True)),
                      (''fullname'', Val (JStr (u_fullname user))),
                      (''email'', Val (JStr (u_email user))),
                      (''role'', Val (JStr (u_role user)))]
      in if u_role user = ''client'' then response @ [(''goal'', opt_json (u_goal user))]
         else if u_role user = ''trainer'' then
           response @ [(''specialization'', opt_json (u_specialization user)),
                       (''experience'', opt_json (u_experience user)),
                       (''certification'', Val (JStr (u_certification user)))]
         else response)"

definition login :: "store \<Rightarrow> login_req \<Rightarrow> outcome" where
  "login s rq =
     (if \<not> present (login_email rq) \<or> \<not> present (login_password rq) \<or>
         \<not> present (login_role rq)
      then reply 400 (msg ''All fields are required'') s []
      else
        (case findOne_credentials (users s) (text_or_empty (login_email rq))
                (text_or_empty (login_password rq)) (text_or_empty (login_role rq)) of
           None \<Rightarrow> reply 400 (msg ''Invalid credentials or role'') s [FindOne User]
         | Some user \<Rightarrow> reply 200 (login_response user) s [FindOne User]))"

section \<open>Workouts\<close>

text \<open>
  \<^verbatim>\<open>parseInt\<close> with no radix turns its argument into a string and reads an integer
  from it. For a number the string is the shortest decimal that reads back as the same
  double: with \<open>k\<close> digits \<open>s\<close> and \<open>n\<close> the position of the decimal point, the least \<open>k\<close>
  such that \<open>s * 10 ^ (n - k)\<close> rounds to the number.
\<close>

definition decimal_exponent :: "rat \<Rightarrow> int" where
  "decimal_exponent x =
     (if 1 \<le> x then int (digit_length (nat \<lfloor>x\<rfloor>))
      else 1 - int (digit_length (nat (\<lceil>1 / x\<rceil> - 1))))"

definition shortest_digits :: "rat \<Rightarrow> (nat \<times> int \<times> int) option" where
  "shortest_digits d =
     find (\<lambda>(k, n, s). 10 ^ (k - 1) \<le> s \<and> s < 10 ^ k \<and>
                        to_double (of_int s * 10 powi (n - int k)) = Fin d)
       (concat (map (\<lambda>k. concat (map (\<lambda>n. map (\<lambda>s. (k, n, s))
                  [\<lfloor>d / 10 powi (n - int k)\<rfloor>, \<lfloor>d / 10 powi (n - int k)\<rfloor> + 1])
                [decimal_exponent d, decimal_exponent d + 1]))
          [1 ..< 18]))"

definition first_digit :: "rat \<Rightarrow> int" where
  "first_digit d =
     (case shortest_digits d of None \<Rightarrow> 0 | Some (k, n, s) \<Rightarrow> s div 10 ^ (k - 1))"

text \<open>
  A number from \<^verbatim>\<open>1e-6\<close> up to, but not, \<^verbatim>\<open>1e21\<close> is printed in positional notation, so
  \<^verbatim>\<open>parseInt\<close> reads its integer part. Any other is printed in exponent notation, so
  \<^verbatim>\<open>parseInt\<close> reads its first digit. An infinity is printed as a word.
\<close>

definition parseInt_number :: "number \<Rightarrow> number option" where
  "parseInt_number x =
     (case x of
        PosInfinity \<Rightarrow> None
      | NegInfinity \<Rightarrow> None
      | Fin d \<Rightarrow>
          if d = 0 then Some (Fin 0)
          else if Fin \<bar>d\<bar> \<noteq> to_double (1 / 10 ^ 6) \<and> \<bar>d\<bar> < 1 / 10 ^ 6 \<or> 10 ^ 21 \<le> \<bar>d\<bar>
          then Some (Fin (of_int (if 0 < d then first_digit d else - first_digit (- d))))
          else Some (Fin (of_int (if 0 < d then \<lfloor>d\<rfloor> else \<lceil>d\<rceil>))))"

text \<open>
  Strings are sequences of UTF-8 bytes. The length in bytes of a white space character or
  line terminator at the head of a string, 0 when there is none.
\<close>

definition white_space_length :: "string \<Rightarrow> nat" where
  "white_space_length s =
     (let bs = map of_char (take 3 s) @ [0, 0, 0 :: nat]; a = bs ! 0; b = bs ! 1; c = bs ! 2
      in if a \<in> {9, 10, 11, 12, 13, 32} then 1
         else if a = 194 \<and> b = 160 then 2
         else if a = 225 \<and> b = 154 \<and> c = 128 then 3
         else if a = 226 \<and> b = 128 \<and> (128 \<le> c \<and> c \<le> 138 \<or> c \<in> {168, 169, 175}) then 3
         else if a = 226 \<and> b = 129 \<and> c = 159 then 3
         else if a = 227 \<and> b = 128 \<and> c = 128 then 3
         else if a = 239 \<and> b = 187 \<and> c = 191 then 3
         else 0)"

function trim_start :: "string \<Rightarrow> string" where
  "trim_start s =
     (if s = [] \<or> white_space_length s = 0 then s
      else trim_start (drop (white_space_length s) s))"
  by pat_completeness auto
termination
  by (relation "measure length") auto

declare trim_start.simps [simp del]

text \<open>The value of a digit; 99 for a character that is a digit in no radix.\<close>

definition digit_val :: "char \<Rightarrow> nat" where
  "digit_val c =
     (let k = (of_char c :: nat)
      in if 48 \<le> k \<and> k \<le> 57 then k - 48
         else if 97 \<le> k \<and> k \<le> 122 then k - 87
         else if 65 \<le> k \<and> k \<le> 90 then k - 55
         else 99)"

definition digits_value :: "nat \<Rightarrow> string \<Rightarrow> nat" where
  "digits_value radix ds = foldl (\<lambda>acc c. acc * radix + digit_val c) 0 ds"

text \<open>
  \<^verbatim>\<open>parseInt\<close> of a string: leading white space is dropped, then a sign, then the prefix
  \<^verbatim>\<open>0x\<close> that selects radix 16, and the longest run of digits of the radix is read and
  rounded to a double. No digit gives \<^verbatim>\<open>NaN\<close>.
\<close>

definition parseInt_string :: "string \<Rightarrow> number option" where
  "parseInt_string inputString =
     (let s1 = trim_start inputString;
          neg = (case s1 of [] \<Rightarrow> False | c # _ \<Rightarrow> c = CHR ''-'');
          s2 = (case s1 of [] \<Rightarrow> [] | c # r \<Rightarrow> if c = CHR ''-'' \<or> c = CHR ''+'' then r else s1);
          hex = (case s2 of c # x # _ \<Rightarrow> c = CHR ''0'' \<and> (x = CHR ''x'' \<or> x = CHR ''X'')
                  | _ \<Rightarrow> False);
          radix = (if hex then 16 else 10);
          s3 = (if hex then drop 2 s2 else s2);
          z = takeWhile (\<lambda>c. digit_val c < radix) s3;
          mathInt = to_double (of_nat (digits_value radix z))
      in if z = [] then None else Some (if neg then negate mathInt else mathInt))"

fun parseInt :: "jsval \<Rightarrow> number option" where
  "parseInt (JStr s) = parseInt_string s"
| "parseInt (JNum q) = parseInt_number (to_double q)"
| "parseInt _ = None"

record workout_req =
  wk_email :: text_field
  wk_type :: text_field
  wk_duration :: jsval
  wk_calories :: jsval
  wk_date :: text_field
  wk_notes :: text_field

text \<open>
  The handler passes \<^verbatim>\<open>parseInt(duration)\<close> and \<^verbatim>\<open>parseInt(calories)\<close> to the model.
  The cast to the schema type Number fails on \<^verbatim>\<open>NaN\<close>, so \<^verbatim>\<open>save\<close> rejects the document
  and the handler answers 500; any other number is kept.
\<close>

definition log_workout :: "store \<Rightarrow> workout_req \<Rightarrow> outcome" where
  "log_workout s rq =
     (if \<not> present (wk_email rq) \<or> \<not> present (wk_type rq) \<or> \<not> truthy (wk_duration rq) \<or>
         \<not> truthy (wk_calories rq) \<or> \<not> present (wk_date rq)
      then reply 400 (msg ''All required fields are missing'') s []
      else
        (case (parseInt (wk_duration rq), parseInt (wk_calories rq)) of
           (Some duration, Some calories) \<Rightarrow>
             reply 200 [(''success'', Val (JBool True)), (''msg'', Val (JStr ''Workout logged''))]
               (s\<lparr>workouts := workouts s @
                   [\<lparr>w_email = text_or_empty (wk_email rq), w_type = text_or_empty (wk_type rq),
                     w_duration = duration, w_calories = calories,
                     w_date = text_or_empty (wk_date rq),
                     w_notes = text_or_empty (wk_notes rq)\<rparr>]\<rparr>)
               [Save Workout]
         | _ \<Rightarrow> reply 500 server_error s [Save Workout]))"

definition get_workouts :: "store \<Rightarrow> string \<Rightarrow> outcome" where
  "get_workouts s email =
     reply 200 [(''success'', Val (JBool True)),
                (''workouts'', WorkoutDocs (filter (\<lambda>w. w_email w = email) (workouts s)))]
       s [Find Workout]"

section \<open>Metrics\<close>

text \<open>The white space at the end of a string, for the trimming of both ends.\<close>

definition white_space_at_end :: "string \<Rightarrow> nat" where
  "white_space_at_end s =
     (if white_space_length (drop (length s - 1) s) = 1 then 1
      else if 2 \<le> length s \<and> white_space_length (drop (length s - 2) s) = 2 then 2
      else if 3 \<le> length s \<and> white_space_length (drop (length s - 3) s) = 3 then 3
      else 0)"

function trim_end :: "string \<Rightarrow> string" where
  "trim_end s =
     (if s = [] \<or> white_space_at_end s = 0 then s
      else trim_end (take (length s - white_space_at_end s) s))"
  by pat_completeness auto
termination
  by (relation "measure length") auto

declare trim_end.simps [simp del]

text \<open>
  An unsigned decimal literal: digits, an optional fraction, an optional exponent, with a
  digit before or after the point, and nothing behind.
\<close>

definition decimal_literal :: "string \<Rightarrow> rat option" where
  "decimal_literal s =
     (let is_digit = (\<lambda>c. digit_val c < 10);
          ds1 = takeWhile is_digit s;
          r1 = dropWhile is_digit s;
          dot = (r1 \<noteq> [] \<and> hd r1 = CHR ''.'');
          ds2 = (if dot then takeWhile is_digit (tl r1) else []);
          r2 = (if dot then dropWhile is_digit (tl r1) else r1);
          ex = (r2 \<noteq> [] \<and> (hd r2 = CHR ''e'' \<or> hd r2 = CHR ''E''));
          r3 = (if ex then tl r2 else []);
          eneg = (r3 \<noteq> [] \<and> hd r3 = CHR ''-'');
          ds3 = (if r3 \<noteq> [] \<and> (hd r3 = CHR ''-'' \<or> hd r3 = CHR ''+'') then tl r3 else r3);
          mantissa = of_nat (digits_value 10 ds1) + of_nat (digits_value 10 ds2) / 10 ^ length ds2;
          exponent = (if eneg then - int (digits_value 10 ds3) else int (digits_value 10 ds3))
      in if ds1 = [] \<and> ds2 = [] then None
         else if ex then
           (if ds3 \<noteq> [] \<and> list_all is_digit ds3 then Some (mantissa * 10 powi exponent)
            else None)
         else if r2 = [] then Some mantissa else None)"

text \<open>
  \<^verbatim>\<open>Number\<close> of a string: white space is trimmed at both ends; the empty string is 0; a
  literal with the prefix \<^verbatim>\<open>0x\<close>, \<^verbatim>\<open>0o\<close> or \<^verbatim>\<open>0b\<close> is read in its radix; otherwise a sign,
  then \<^verbatim>\<open>Infinity\<close> or a decimal literal. Anything else is \<^verbatim>\<open>NaN\<close>.
\<close>

definition string_to_number :: "string \<Rightarrow> number option" where
  "string_to_number str =
     (let t = trim_end (trim_start str);
          radix = (case t of c # x # _ \<Rightarrow>
                     if c \<noteq> CHR ''0'' then 10
                     else if x = CHR ''x'' \<or> x = CHR ''X'' then 16
                     else if x = CHR ''o'' \<or> x = CHR ''O'' then 8
                     else if x = CHR ''b'' \<or> x = CHR ''B'' then 2 else 10
                   | _ \<Rightarrow> (10 :: nat));
          neg = (t \<noteq> [] \<and> hd t = CHR ''-'');
          u = (if t \<noteq> [] \<and> (hd t = CHR ''-'' \<or> hd t = CHR ''+'') then tl t else t)
      in if t = [] then Some (Fin 0)
         else if radix \<noteq> 10 then
           (if drop 2 t \<noteq> [] \<and> list_all (\<lambda>c. digit_val c < radix) (drop 2 t)
            then Some (to_double (of_nat (digits_value radix (drop 2 t)))) else None)
         else if u = ''Infinity'' then Some (if neg then NegInfinity else PosInfinity)
         else (case decimal_literal u of
                 None \<Rightarrow> None
               | Some q \<Rightarrow> Some (if neg then negate (to_double q) else to_double q)))"

text \<open>
  The cast of the mapper to the schema type Number, which \<^verbatim>\<open>save\<close> applies to \<open>weight\<close>,
  \<open>bmi\<close> and \<open>fat\<close> (schema lines 41 to 43): null, undefined and the empty string are no
  value, a string and a boolean go through \<^verbatim>\<open>Number\<close>, and \<^verbatim>\<open>NaN\<close> is a cast error.
\<close>

datatype cast = CastError | NoValue | Value number

fun castNumber :: "jsval \<Rightarrow> cast" where
  "castNumber JUndefined = NoValue"
| "castNumber JNull = NoValue"
| "castNumber (JBool b) = Value (Fin (if b then 1 else 0))"
| "castNumber (JNum q) = Value (to_double q)"
| "castNumber (JStr s) =
     (if s = [] then NoValue
      else case string_to_number s of None \<Rightarrow> CastError | Some n \<Rightarrow> Value n)"

record metric_req =
  mt_email :: text_field
  mt_date :: text_field
  mt_weight :: jsval
  mt_bmi :: jsval
  mt_fat :: jsval

text \<open>The value of \<^verbatim>\<open>fat || 0\<close>.\<close>

definition or_zero :: "jsval \<Rightarrow> jsval" where
  "or_zero v = (if truthy v then v else JNum 0)"

text \<open>
  The handler passes \<open>weight\<close>, \<open>bmi\<close> and \<^verbatim>\<open>fat || 0\<close> to the model as they are; \<^verbatim>\<open>save\<close>
  casts them, and a cast error or a required value that is missing makes it throw, which
  the handler answers with 500 (lines 346 to 352).
\<close>

definition store_metric :: "store \<Rightarrow> metric_req \<Rightarrow> outcome" where
  "store_metric s rq =
     (if \<not> present (mt_email rq) \<or> \<not> present (mt_date rq) \<or> \<not> truthy (mt_weight rq) \<or>
         \<not> truthy (mt_bmi rq)
      then reply 400 (msg ''All required fields must be provided'') s []
      else
        (case (castNumber (mt_weight rq), castNumber (mt_bmi rq),
               castNumber (or_zero (mt_fat rq))) of
           (Value weight, Value bmi, Value fat) \<Rightarrow>
             reply 200 [(''success'', Val (JBool True)), (''msg'', Val (JStr ''Metrics updated''))]
               (s\<lparr>metrics := metrics s @
                   [\<lparr>m_email = text_or_empty (mt_email rq), m_date = text_or_empty (mt_date rq),
                     m_weight = weight, m_bmi = bmi, m_fat = fat\<rparr>]\<rparr>)
               [Save Metrics]
         | _ \<Rightarrow> reply 500 server_error s [Save Metrics]))"

definition get_metrics :: "store \<Rightarrow> string \<Rightarrow> outcome" where
  "get_metrics s email =
     reply 200 [(''success'', Val (JBool True)),
                (''metrics'', MetricDocs (filter (\<lambda>m. m_email m = email) (metrics s)))]
       s [Find Metrics]"

section \<open>Plans\<close>

record plan_req =
  pl_trainer :: text_field
  pl_client :: text_field
  pl_plan :: text_field

definition assign_plan :: "store \<Rightarrow> plan_req \<Rightarrow> outcome" where
  "assign_plan s rq =
     (if \<not> present (pl_trainer rq) \<or> \<not> present (pl_client rq) \<or> \<not> present (pl_plan rq)
      then reply 400 (msg ''All fields are required'') s []
      else
        reply 200 [(''success'', Val (JBool True)), (''msg'', Val (JStr ''Plan assigned''))]
          (s\<lparr>plans := plans s @
              [\<lparr>p_id = next_id s, p_trainer = text_or_empty (pl_trainer rq),
                p_client = Some (text_or_empty (pl_client rq)),
                p_plan = Some (text_or_empty (pl_plan rq))\<rparr>],
             next_id := Suc (next_id s)\<rparr>)
          [Save Plan])"

definition get_plans :: "store \<Rightarrow> string \<Rightarrow> outcome" where
  "get_plans s trainer =
     reply 200 [(''success'', Val (JBool True)),
                (''plans'', PlanDocs (filter (\<lambda>p. p_trainer p = trainer) (plans s)))]
       s [Find Plan]"

text \<open>
  A key of the update \<^verbatim>\<open>{ client, plan }\<close>: absent from the body (\<^verbatim>\<open>undefined\<close>), null,
  or a text.
\<close>

datatype update_field = Absent | Null | Text string

record update_req =
  up_client :: update_field
  up_plan :: update_field

text \<open>
  The update applied to one document: the mapper leaves an undefined key out of the
  update (mongoose 6 and later), so the field keeps its value; null and a text are set.
  No validator runs on an update.
\<close>

fun updated :: "update_field \<Rightarrow> string option \<Rightarrow> string option" where
  "updated Absent old = old"
| "updated Null old = None"
| "updated (Text t) old = Some t"

definition apply_update :: "update_req \<Rightarrow> plan_doc \<Rightarrow> plan_doc" where
  "apply_update rq p =
     p\<lparr>p_client := updated (up_client rq) (p_client p),
       p_plan := updated (up_plan rq) (p_plan p)\<rparr>"

text \<open>
  \<^verbatim>\<open>findByIdAndUpdate\<close> and \<^verbatim>\<open>findByIdAndDelete\<close> act on the first document with the
  identifier, and on nothing when there is none. Identifiers are well formed.
\<close>

fun findByIdAndUpdate :: "nat \<Rightarrow> (plan_doc \<Rightarrow> plan_doc) \<Rightarrow> plan_doc list \<Rightarrow> plan_doc list" where
  "findByIdAndUpdate i f [] = []"
| "findByIdAndUpdate i f (p # ps) =
     (if p_id p = i then f p # ps else p # findByIdAndUpdate i f ps)"

fun findByIdAndDelete :: "nat \<Rightarrow> plan_doc list \<Rightarrow> plan_doc list" where
  "findByIdAndDelete i [] = []"
| "findByIdAndDelete i (p # ps) = (if p_id p = i then ps else p # findByIdAndDelete i ps)"

definition update_plan :: "store \<Rightarrow> nat \<Rightarrow> update_req \<Rightarrow> outcome" where
  "update_plan s i rq =
     reply 200 [(''success'', Val (JBool True)), (''msg'', Val (JStr ''Plan updated''))]
       (s\<lparr>plans := findByIdAndUpdate i (apply_update rq) (plans s)\<rparr>)
       [FindByIdAndUpdate Plan]"

definition delete_plan :: "store \<Rightarrow> nat \<Rightarrow> outcome" where
  "delete_plan s i =
     reply 200 [(''success'', Val (JBool True)), (''msg'', Val (JStr ''Plan deleted''))]
       (s\<lparr>plans := findByIdAndDelete i (plans s)\<rparr>)
       [FindByIdAndDelete Plan]"

section \<open>The remaining endpoints and the router\<close>

definition test_endpoint :: "store \<Rightarrow> (string \<times> jsval) list \<Rightarrow> outcome" where
  "test_endpoint s b =
     reply 200 [(''success'', Val (JBool True)), (''msg'', Val (JStr ''Test endpoint working'')),
                (''receivedData'', Body b)] s []"

definition logout :: "store \<Rightarrow> outcome" where
  "logout s = reply 200 (msg ''Logged out on client side. No server session stored.'') s []"

datatype request =
    PostRegister register_req
  | PostLogin login_req
  | PostLogWorkout workout_req
  | GetWorkouts string
  | PostMetrics metric_req
  | GetMetrics string
  | PostPlans plan_req
  | GetPlans string
  | PutPlan nat update_req
  | DeletePlan nat
  | PostTest "(string \<times> jsval) list"
  | PostLogout

fun router :: "store \<Rightarrow> request \<Rightarrow> outcome" where
  "router s (PostRegister rq) = register s rq"
| "router s (PostLogin rq) = login s rq"
| "router s (PostLogWorkout rq) = log_workout s rq"
| "router s (GetWorkouts email) = get_workouts s email"
| "router s (PostMetrics rq) = store_metric s rq"
| "router s (GetMetrics email) = get_metrics s email"
| "router s (PostPlans rq) = assign_plan s rq"
| "router s (GetPlans trainer) = get_plans s trainer"
| "router s (PutPlan i rq) = update_plan s i rq"
| "router s (DeletePlan i) = delete_plan s i"
| "router s (PostTest b) = test_endpoint s b"
| "router s PostLogout = logout s"

text \<open>The model every call of an endpoint is made on, when it makes one.\<close>

fun endpoint_model :: "request \<Rightarrow> model" where
  "endpoint_model (PostRegister _) = User"
| "endpoint_model (PostLogin _) = User"
| "endpoint_model (PostLogWorkout _) = Workout"
| "endpoint_model (GetWorkouts _) = Workout"
| "endpoint_model (PostMetrics _) = Metrics"
| "endpoint_model (GetMetrics _) = Metrics"
| "endpoint_model _ = Plan"

text \<open>
  What the schemas guarantee of a store that only these handlers have written: every user
  document passed \<^verbatim>\<open>save\<close>'s validation, and plan identifiers are fresh.
\<close>

definition store_ok :: "store \<Rightarrow> bool" where
  "store_ok s \<longleftrightarrow>
     list_all validate_user (users s) \<and> distinct (map u_email (users s)) \<and>
     distinct (map p_id (plans s)) \<and> list_all (\<lambda>p. p_id p < next_id s) (plans s)"

text \<open>The stores that a sequence of requests produces from the empty store.\<close>

inductive reachable :: "store \<Rightarrow> bool" where
  init: "reachable empty_store"
| step: "reachable s \<Longrightarrow> reachable (st (router s rq))"

text \<open>
  A registration that carries every required field and the fields of its role: the
  requests that pass the three checks of lines 76 to 98 with the role of a client or of a
  trainer.
\<close>

definition reg_complete :: "register_req \<Rightarrow> bool" where
  "reg_complete rq \<longleftrightarrow>
     present (reg_fullname rq) \<and> present (reg_email rq) \<and> present (reg_password rq) \<and>
     (reg_role rq = Some ''client'' \<and> present (reg_goal rq) \<or>
      reg_role rq = Some ''trainer'' \<and> present (reg_specialization rq) \<and>
        present (reg_experience rq))"

subsection \<open>Example requests\<close>

text \<open>The client and the trainer of the end-to-end scenario.\<close>

definition client_req :: register_req where
  "client_req =
     \<lparr>reg_fullname = Some ''Cleo'', reg_email = Some ''c@x.com'', reg_password = Some ''pw'',
      reg_role = Some ''client'', reg_goal = Some ''G'', reg_specialization = None,
      reg_experience = None, reg_certification = None\<rparr>"

definition trainer_req :: register_req where
  "trainer_req =
     \<lparr>reg_fullname = Some ''Tilo'', reg_email = Some ''t@x.com'', reg_password = Some ''pw'',
      reg_role = Some ''trainer'', reg_goal = None, reg_specialization = Some ''S'',
      reg_experience = Some ''E'', reg_certification = None\<rparr>"

definition client_doc :: user_doc where
  "client_doc =
     \<lparr>u_fullname = ''Cleo'', u_email = ''c@x.com'', u_password = ''pw'', u_role = ''client'',
      u_goal = Some ''G'', u_specialization = None, u_experience = None,
      u_certification = []\<rparr>"

definition trainer_doc :: user_doc where
  "trainer_doc =
     \<lparr>u_fullname = ''Tilo'', u_email = ''t@x.com'', u_password = ''pw'', u_role = ''trainer'',
      u_goal = None, u_specialization = Some ''S'', u_experience = Some ''E'',
      u_certification = []\<rparr>"

definition two_users :: store where
  "two_users = empty_store\<lparr>users := [trainer_doc, client_doc]\<rparr>"

definition plan_a :: plan_doc where
  "plan_a =
     \<lparr>p_id = 0, p_trainer = ''t@x.com'', p_client = Some ''c@x.com'', p_plan = Some ''run''\<rparr>"

definition plan_b :: plan_doc where
  "plan_b =
     \<lparr>p_id = 1, p_trainer = ''t@x.com'', p_client = Some ''d@x.com'', p_plan = Some ''swim''\<rparr>"

definition two_plans :: store where
  "two_plans = empty_store\<lparr>plans := [plan_a, plan_b], next_id := 2\<rparr>"



section \<open>Basic facts\<close>

lemma to_double_zero [simp]: "to_double 0 = Fin 0"
  by (simp add: to_double_def)

lemma present_text: "present x \<Longrightarrow> x = Some (text_or_empty x) \<and> text_or_empty x \<noteq> []"
  by (cases x) auto

lemma res_json_msg [simp]: "res_json (msg m) = msg m"
  by (simp add: res_json_def msg_def)

lemma reply_sel [simp]:
  "status (res (reply c kvs s t)) = c" "body (res (reply c kvs s t)) = res_json kvs"
  "st (reply c kvs s t) = s" "ops (reply c kvs s t) = t"
  by (simp_all add: reply_def)

lemma findOne_email_None: "findOne_email us e = None \<longleftrightarrow> e \<notin> u_email ` set us"
  by (auto simp: findOne_email_def find_None_iff)

lemma userData_email: "u_email (userData rq) = text_or_empty (reg_email rq)"
  by (simp add: userData_def Let_def)

lemma userData_role: "u_role (userData rq) = text_or_empty (reg_role rq)"
  by (simp add: userData_def Let_def)

lemma validate_userData: "reg_complete rq \<Longrightarrow> validate_user (userData rq)"
  by (auto simp: reg_complete_def validate_user_def userData_def Let_def dest: present_text)

lemma register_complete:
  assumes "reg_complete rq" "text_or_empty (reg_email rq) \<notin> u_email ` set (users s)"
  shows "register s rq = reply 201 (msg ''Registered successfully'')
           (s\<lparr>users := users s @ [userData rq]\<rparr>) [FindOne User, Save User]"
proof -
  have v: "validate_user (userData rq)" using assms(1) by (rule validate_userData)
  have f: "findOne_email (users s) (text_or_empty (reg_email rq)) = None"
    using assms(2) by (simp add: findOne_email_None)
  have p: "present (reg_fullname rq)" "present (reg_email rq)" "present (reg_password rq)"
    "present (reg_role rq)"
    using assms(1) by (auto simp: reg_complete_def)
  have g: "\<not> (reg_role rq = Some ''client'' \<and> \<not> present (reg_goal rq))"
    "\<not> (reg_role rq = Some ''trainer'' \<and>
        (\<not> present (reg_specialization rq) \<or> \<not> present (reg_experience rq)))"
    using assms(1) by (auto simp: reg_complete_def)
  show ?thesis
    unfolding register_def using v f p g by auto
qed

lemma register_existing:
  assumes "reg_complete rq" "text_or_empty (reg_email rq) \<in> u_email ` set (users s)"
  shows "register s rq = reply 400 (msg ''User already exists'') s [FindOne User]"
proof -
  have "findOne_email (users s) (text_or_empty (reg_email rq)) \<noteq> None"
    using assms(2) by (simp add: findOne_email_None)
  then obtain u where f: "findOne_email (users s) (text_or_empty (reg_email rq)) = Some u"
    by blast
  have p: "present (reg_fullname rq)" "present (reg_email rq)" "present (reg_password rq)"
    "present (reg_role rq)"
    using assms(1) by (auto simp: reg_complete_def)
  have g: "\<not> (reg_role rq = Some ''client'' \<and> \<not> present (reg_goal rq))"
    "\<not> (reg_role rq = Some ''trainer'' \<and>
        (\<not> present (reg_specialization rq) \<or> \<not> present (reg_experience rq)))"
    using assms(1) by (auto simp: reg_complete_def)
  show ?thesis
    unfolding register_def using f p g by auto
qed

lemma reg_complete_client_req: "reg_complete client_req"
  by (simp add: reg_complete_def client_req_def)

lemma reg_complete_trainer_req: "reg_complete trainer_req"
  by (simp add: reg_complete_def trainer_req_def)

section \<open>Registration\<close>

text \<open>
  Claim C3. Register answers 400 with a validation message, and stores nothing, when the
  role is \<open>client\<close> and the goal is missing, and when the role is \<open>trainer\<close> and the
  specialization or the experience is missing. When the full name, the email, the
  password, the role and the fields of the role are all present and no account has the
  email, it answers 201 and stores the account.
\<close>

theorem register_validation:
  "(reg_role rq = Some ''client'' \<and> \<not> present (reg_goal rq) \<longrightarrow>
      status (res (register s rq)) = 400 \<and> st (register s rq) = s \<and>
      (body (res (register s rq)) = msg ''Full name, email, password, and role are required'' \<or>
       body (res (register s rq)) = msg ''Fitness goal is required for client registration'')) \<and>
   (reg_role rq = Some ''trainer'' \<and>
      (\<not> present (reg_specialization rq) \<or> \<not> present (reg_experience rq)) \<longrightarrow>
      status (res (register s rq)) = 400 \<and> st (register s rq) = s \<and>
      (body (res (register s rq)) = msg ''Full name, email, password, and role are required'' \<or>
       body (res (register s rq)) =
         msg ''Specialization and experience are required for trainer registration'')) \<and>
   (reg_complete rq \<and> text_or_empty (reg_email rq) \<notin> u_email ` set (users s) \<longrightarrow>
      status (res (register s rq)) = 201 \<and>
      body (res (register s rq)) = msg ''Registered successfully'' \<and>
      users (st (register s rq)) = users s @ [userData rq])"
proof (intro conjI impI)
  assume "reg_complete rq \<and> text_or_empty (reg_email rq) \<notin> u_email ` set (users s)"
  then have r: "register s rq = reply 201 (msg ''Registered successfully'')
           (s\<lparr>users := users s @ [userData rq]\<rparr>) [FindOne User, Save User]"
    by (simp add: register_complete)
  show "status (res (register s rq)) = 201" by (simp add: r)
  show "body (res (register s rq)) = msg ''Registered successfully''" by (simp add: r)
  show "users (st (register s rq)) = users s @ [userData rq]" by (simp add: r)
qed (simp_all add: register_def)

theorem register_validation_witness:
  "status (res (register empty_store (client_req\<lparr>reg_goal := None\<rparr>))) = 400 \<and>
   st (register empty_store (client_req\<lparr>reg_goal := None\<rparr>)) = empty_store \<and>
   status (res (register empty_store (trainer_req\<lparr>reg_experience := Some []\<rparr>))) = 400 \<and>
   reg_complete trainer_req \<and>
   status (res (register empty_store trainer_req)) = 201 \<and>
   users (st (register empty_store trainer_req)) = [trainer_doc]"
proof -
  have u: "userData trainer_req = trainer_doc"
    by (simp add: userData_def trainer_req_def trainer_doc_def)
  show ?thesis
    using register_validation [of "client_req\<lparr>reg_goal := None\<rparr>" empty_store]
      register_validation [of "trainer_req\<lparr>reg_experience := Some []\<rparr>" empty_store]
      register_validation [of trainer_req empty_store] reg_complete_trainer_req
    by (simp add: u) (simp add: client_req_def trainer_req_def empty_store_def)
qed

text \<open>
  Claim C2. Of two registrations in sequence with the same email, each carrying every
  required field and the fields of its role, the first (on a store with no account of
  that email) answers 201 and the second answers 400 with the conflict message; exactly
  one account with that email is stored afterwards.
\<close>

theorem register_same_email_twice:
  assumes "reg_complete rq1" and "reg_complete rq2"
    and "reg_email rq2 = reg_email rq1"
    and "text_or_empty (reg_email rq1) \<notin> u_email ` set (users s)"
  shows "status (res (register s rq1)) = 201 \<and>
         status (res (register (st (register s rq1)) rq2)) = 400 \<and>
         body (res (register (st (register s rq1)) rq2)) = msg ''User already exists'' \<and>
         length (filter (\<lambda>u. u_email u = text_or_empty (reg_email rq1))
                   (users (st (register (st (register s rq1)) rq2)))) = 1"
proof -
  let ?e = "text_or_empty (reg_email rq1)"
  let ?s1 = "s\<lparr>users := users s @ [userData rq1]\<rparr>"
  have r1: "register s rq1 =
      reply 201 (msg ''Registered successfully'') ?s1 [FindOne User, Save User]"
    using assms(1,4) by (rule register_complete)
  have "text_or_empty (reg_email rq2) \<in> u_email ` set (users ?s1)"
    by (simp add: assms(3) userData_email)
  with assms(2) have r2: "register ?s1 rq2 =
      reply 400 (msg ''User already exists'') ?s1 [FindOne User]"
    by (rule register_existing)
  have none: "filter (\<lambda>u. u_email u = ?e) (users s) = []"
    using assms(4) by (force simp: filter_empty_conv)
  show ?thesis
    by (simp add: r1 r2 none userData_email)
qed

theorem register_same_email_twice_witness:
  "reg_complete client_req \<and> reg_complete (client_req\<lparr>reg_password := Some ''other''\<rparr>) \<and>
   status (res (register empty_store client_req)) = 201 \<and>
   status (res (register (st (register empty_store client_req))
     (client_req\<lparr>reg_password := Some ''other''\<rparr>))) = 400 \<and>
   length (filter (\<lambda>u. u_email u = ''c@x.com'')
     (users (st (register (st (register empty_store client_req))
        (client_req\<lparr>reg_password := Some ''other''\<rparr>))))) = 1"
proof -
  have h2: "reg_complete (client_req\<lparr>reg_password := Some ''other''\<rparr>)"
    by (simp add: reg_complete_def client_req_def)
  have h3: "reg_email (client_req\<lparr>reg_password := Some ''other''\<rparr>) = reg_email client_req"
    by simp
  have h4: "text_or_empty (reg_email client_req) \<notin> u_email ` set (users empty_store)"
    by (simp add: empty_store_def)
  have e: "text_or_empty (reg_email client_req) = ''c@x.com''"
    by (simp add: client_req_def)
  show ?thesis
    using register_same_email_twice [OF reg_complete_client_req h2 h3 h4]
      reg_complete_client_req h2
    by (simp add: e)
qed

text \<open>
  Claim C8. A registration either leaves the accounts as they are or appends one account,
  whose role is the requested one and is \<open>client\<close> or \<open>trainer\<close> (the enumeration of the
  schema); with any other role the store is unchanged and the answer is not 201.
\<close>

theorem register_role_enum:
  "(users (st (register s rq)) = users s \<or>
    users (st (register s rq)) = users s @ [userData rq] \<and>
      (u_role (userData rq) = ''client'' \<or> u_role (userData rq) = ''trainer'') \<and>
      reg_role rq = Some (u_role (userData rq))) \<and>
   (reg_role rq \<noteq> Some ''client'' \<and> reg_role rq \<noteq> Some ''trainer'' \<longrightarrow>
      st (register s rq) = s \<and> status (res (register s rq)) \<noteq> 201)"
proof -
  have enum: "validate_user (userData rq) \<Longrightarrow> present (reg_role rq) \<Longrightarrow>
      (u_role (userData rq) = ''client'' \<or> u_role (userData rq) = ''trainer'') \<and>
      reg_role rq = Some (u_role (userData rq))"
    by (auto simp: validate_user_def userData_role dest: present_text)
  have a: "users (st (register s rq)) = users s \<or>
    users (st (register s rq)) = users s @ [userData rq] \<and>
      (u_role (userData rq) = ''client'' \<or> u_role (userData rq) = ''trainer'') \<and>
      reg_role rq = Some (u_role (userData rq))"
    using enum by (simp add: register_def split: option.splits)
  have novalid: "reg_role rq \<noteq> Some ''client'' \<Longrightarrow> reg_role rq \<noteq> Some ''trainer'' \<Longrightarrow>
      present (reg_role rq) \<Longrightarrow> \<not> validate_user (userData rq)"
    by (auto simp: validate_user_def userData_role dest: present_text)
  have b: "reg_role rq \<noteq> Some ''client'' \<and> reg_role rq \<noteq> Some ''trainer'' \<longrightarrow>
      st (register s rq) = s \<and> status (res (register s rq)) \<noteq> 201"
    using novalid by (auto simp: register_def split: option.splits)
  show ?thesis using a b by blast
qed

theorem register_role_enum_witness:
  "reg_role (client_req\<lparr>reg_role := Some ''admin''\<rparr>) \<noteq> Some ''client'' \<and>
   reg_role (client_req\<lparr>reg_role := Some ''admin''\<rparr>) \<noteq> Some ''trainer'' \<and>
   st (register empty_store (client_req\<lparr>reg_role := Some ''admin''\<rparr>)) = empty_store \<and>
   status (res (register empty_store (client_req\<lparr>reg_role := Some ''admin''\<rparr>))) \<noteq> 201"
  using register_role_enum [of empty_store "client_req\<lparr>reg_role := Some ''admin''\<rparr>"]
  by simp

section \<open>Workouts and metrics\<close>

text \<open>
  Claim C4. A workout whose duration or calories is the number 0 is refused with status
  400 and the validation message; the store is unchanged and no store operation is made.
\<close>

theorem log_workout_zero_rejected:
  "wk_duration rq = JNum 0 \<or> wk_calories rq = JNum 0 \<Longrightarrow>
     status (res (log_workout s rq)) = 400 \<and>
     body (res (log_workout s rq)) = msg ''All required fields are missing'' \<and>
     st (log_workout s rq) = s \<and> ops (log_workout s rq) = []"
  by (auto simp: log_workout_def)

theorem log_workout_zero_rejected_witness:
  "status (res (log_workout empty_store
     \<lparr>wk_email = Some ''c@x.com'', wk_type = Some ''run'', wk_duration = JNum 0,
      wk_calories = JNum 300, wk_date = Some ''2024-01-01'', wk_notes = None\<rparr>)) = 400 \<and>
   st (log_workout empty_store
     \<lparr>wk_email = Some ''c@x.com'', wk_type = Some ''run'', wk_duration = JNum 0,
      wk_calories = JNum 300, wk_date = Some ''2024-01-01'', wk_notes = None\<rparr>) = empty_store"
  using log_workout_zero_rejected [of
     "\<lparr>wk_email = Some ''c@x.com'', wk_type = Some ''run'', wk_duration = JNum 0,
      wk_calories = JNum 300, wk_date = Some ''2024-01-01'', wk_notes = None\<rparr>" empty_store]
  by simp

section \<open>Plans and the store invariant\<close>

lemma findByIdAndUpdate_length [simp]: "length (findByIdAndUpdate i f ps) = length ps"
  by (induction ps) auto

lemma findByIdAndUpdate_ids:
  "(\<And>p. p_id (f p) = p_id p) \<Longrightarrow> map p_id (findByIdAndUpdate i f ps) = map p_id ps"
  by (induction ps) auto

lemma findByIdAndUpdate_trainers:
  "(\<And>p. p_trainer (f p) = p_trainer p) \<Longrightarrow>
     map p_trainer (findByIdAndUpdate i f ps) = map p_trainer ps"
  by (induction ps) auto

lemma findByIdAndUpdate_other:
  "k < length ps \<Longrightarrow> p_id (ps ! k) \<noteq> i \<Longrightarrow> findByIdAndUpdate i f ps ! k = ps ! k"
proof (induction ps arbitrary: k)
  case Nil
  then show ?case by simp
next
  case (Cons p ps)
  show ?case
  proof (cases k)
    case 0
    with Cons.prems show ?thesis by simp
  next
    case (Suc j)
    with Cons show ?thesis by simp
  qed
qed

lemma findByIdAndDelete_filter:
  "distinct (map p_id ps) \<Longrightarrow> findByIdAndDelete i ps = filter (\<lambda>p. p_id p \<noteq> i) ps"
proof (induction ps)
  case Nil
  then show ?case by simp
next
  case (Cons p ps)
  show ?case
  proof (cases "p_id p = i")
    case True
    from Cons.prems have "p_id p \<notin> p_id ` set ps" by simp
    with True have "\<forall>q \<in> set ps. p_id q \<noteq> i" by blast
    then have "filter (\<lambda>p. p_id p \<noteq> i) ps = ps" by (simp add: filter_id_conv)
    with True show ?thesis by simp
  next
    case False
    with Cons show ?thesis by simp
  qed
qed

lemma apply_update_frame [simp]:
  "p_id (apply_update rq p) = p_id p" "p_trainer (apply_update rq p) = p_trainer p"
  by (simp_all add: apply_update_def)

lemma store_ok_empty: "store_ok empty_store"
  by (simp add: store_ok_def empty_store_def)

lemma store_ok_register: "store_ok s \<Longrightarrow> store_ok (st (register s rq))"
  by (auto simp: register_def store_ok_def findOne_email_None userData_email
      split: option.splits)

lemma store_ok_assign_plan: "store_ok s \<Longrightarrow> store_ok (st (assign_plan s rq))"
  by (auto simp: assign_plan_def store_ok_def list_all_iff)

lemma store_ok_update_plan: "store_ok s \<Longrightarrow> store_ok (st (update_plan s i rq))"
proof -
  assume ok: "store_ok s"
  have ids: "map p_id (findByIdAndUpdate i (apply_update rq) (plans s)) = map p_id (plans s)"
    by (simp add: findByIdAndUpdate_ids)
  have m: "list_all (\<lambda>p. p_id p < next_id s) ps \<longleftrightarrow>
      list_all (\<lambda>n. n < next_id s) (map p_id ps)" for ps
    by (simp add: list.pred_map comp_def)
  have d: "distinct (map p_id (findByIdAndUpdate i (apply_update rq) (plans s)))"
    using ok by (simp add: ids store_ok_def)
  have b: "list_all (\<lambda>p. p_id p < next_id s) (findByIdAndUpdate i (apply_update rq) (plans s))"
    using ok unfolding m ids by (simp add: store_ok_def m)
  show ?thesis
    using ok d b by (simp add: update_plan_def store_ok_def)
qed

lemma store_ok_delete_plan: "store_ok s \<Longrightarrow> store_ok (st (delete_plan s i))"
  by (auto simp: delete_plan_def store_ok_def findByIdAndDelete_filter list_all_iff
      distinct_map_filter)

lemma store_ok_router: "store_ok s \<Longrightarrow> store_ok (st (router s rq))"
proof (cases rq)
  case (PostRegister x)
  assume "store_ok s"
  with PostRegister show ?thesis by (simp add: store_ok_register)
next
  case (PostLogin x)
  assume "store_ok s"
  with PostLogin show ?thesis by (simp add: login_def split: option.splits)
next
  case (PostLogWorkout x)
  assume "store_ok s"
  with PostLogWorkout show ?thesis
    by (auto simp: log_workout_def store_ok_def split: option.splits)
next
  case (GetWorkouts x)
  assume "store_ok s"
  with GetWorkouts show ?thesis by (simp add: get_workouts_def)
next
  case (PostMetrics x)
  assume "store_ok s"
  with PostMetrics show ?thesis
    by (auto simp: store_metric_def store_ok_def split: cast.splits)
next
  case (GetMetrics x)
  assume "store_ok s"
  with GetMetrics show ?thesis by (simp add: get_metrics_def)
next
  case (PostPlans x)
  assume "store_ok s"
  with PostPlans show ?thesis by (simp add: store_ok_assign_plan)
next
  case (GetPlans x)
  assume "store_ok s"
  with GetPlans show ?thesis by (simp add: get_plans_def)
next
  case (PutPlan i x)
  assume "store_ok s"
  with PutPlan show ?thesis by (simp add: store_ok_update_plan)
next
  case (DeletePlan i)
  assume "store_ok s"
  with DeletePlan show ?thesis by (simp add: store_ok_delete_plan)
next
  case (PostTest x)
  assume "store_ok s"
  with PostTest show ?thesis by (simp add: test_endpoint_def)
next
  case PostLogout
  assume "store_ok s"
  with PostLogout show ?thesis by (simp add: logout_def)
qed

lemma reachable_store_ok: "reachable s \<Longrightarrow> store_ok s"
  by (induction rule: reachable.induct) (simp_all add: store_ok_empty store_ok_router)

text \<open>
  Claim C5. Updating a plan by its identifier answers 200 and leaves the accounts, the
  workouts and the metrics as they are; the plans keep their identifiers and their
  trainers, position by position, and every plan with another identifier is unchanged.
  So only the client and the plan text of the addressed record can differ.
\<close>

theorem update_plan_frame:
  "status (res (update_plan s i rq)) = 200 \<and>
   users (st (update_plan s i rq)) = users s \<and>
   workouts (st (update_plan s i rq)) = workouts s \<and>
   metrics (st (update_plan s i rq)) = metrics s \<and>
   map p_id (plans (st (update_plan s i rq))) = map p_id (plans s) \<and>
   map p_trainer (plans (st (update_plan s i rq))) = map p_trainer (plans s) \<and>
   (\<forall>k < length (plans s).
      p_id (plans s ! k) \<noteq> i \<longrightarrow> plans (st (update_plan s i rq)) ! k = plans s ! k)"
  by (simp add: update_plan_def findByIdAndUpdate_ids findByIdAndUpdate_trainers
      findByIdAndUpdate_other)

theorem update_plan_frame_witness:
  "plans (st (update_plan two_plans 0 \<lparr>up_client = Text ''e@x.com'', up_plan = Text ''row''\<rparr>)) ! 1
     = plan_b \<and>
   map p_trainer
     (plans (st (update_plan two_plans 0 \<lparr>up_client = Text ''e@x.com'', up_plan = Text ''row''\<rparr>)))
     = [''t@x.com'', ''t@x.com''] \<and>
   plans (st (update_plan two_plans 0 \<lparr>up_client = Text ''e@x.com'', up_plan = Text ''row''\<rparr>)) ! 0
     \<noteq> plan_a"
proof -
  have p: "plans two_plans = [plan_a, plan_b]"
    by (simp add: two_plans_def empty_store_def)
  have c: "plans (st (update_plan two_plans 0
      \<lparr>up_client = Text ''e@x.com'', up_plan = Text ''row''\<rparr>)) ! 0 \<noteq> plan_a"
    by (simp add: update_plan_def p plan_a_def apply_update_def)
  show ?thesis
    using update_plan_frame [of two_plans 0 "\<lparr>up_client = Text ''e@x.com'', up_plan = Text ''row''\<rparr>"] c
    by (simp add: p) (simp add: plan_a_def plan_b_def)
qed

text \<open>
  Claim C6. On a store written by these handlers, the plans listed for a trainer after
  the deletion of the plan with identifier \<open>i\<close> are the plans listed before, in the same
  order, without the record of that identifier.
\<close>

theorem delete_plan_then_list:
  "store_ok s \<Longrightarrow>
     status (res (get_plans (st (delete_plan s i)) t)) = 200 \<and>
     (\<exists>ps. body (res (get_plans s t)) =
              [(''success'', Val (JBool True)), (''plans'', PlanDocs ps)] \<and>
           body (res (get_plans (st (delete_plan s i)) t)) =
              [(''success'', Val (JBool True)),
               (''plans'', PlanDocs (filter (\<lambda>p. p_id p \<noteq> i) ps))])"
proof -
  assume "store_ok s"
  then have d: "findByIdAndDelete i (plans s) = filter (\<lambda>p. p_id p \<noteq> i) (plans s)"
    by (simp add: store_ok_def findByIdAndDelete_filter)
  show ?thesis
    by (simp add: get_plans_def delete_plan_def d res_json_def) (rule filter_cong, auto)
qed

theorem delete_plan_then_list_witness:
  "store_ok two_plans \<and>
   body (res (get_plans two_plans ''t@x.com'')) =
     [(''success'', Val (JBool True)), (''plans'', PlanDocs [plan_a, plan_b])] \<and>
   body (res (get_plans (st (delete_plan two_plans 0)) ''t@x.com'')) =
     [(''success'', Val (JBool True)), (''plans'', PlanDocs [plan_b])]"
proof -
  have ok: "store_ok two_plans"
    by (simp add: store_ok_def two_plans_def empty_store_def plan_a_def plan_b_def)
  have b: "body (res (get_plans two_plans ''t@x.com'')) =
     [(''success'', Val (JBool True)), (''plans'', PlanDocs [plan_a, plan_b])]"
    by (simp add: get_plans_def two_plans_def empty_store_def plan_a_def plan_b_def res_json_def)
  show ?thesis
    using delete_plan_then_list [OF ok, of 0 "''t@x.com''"] ok b
    by (auto simp: plan_a_def plan_b_def)
qed

section \<open>Login\<close>

lemma distinct_map_eq:
  "distinct (map f xs) \<Longrightarrow> x \<in> set xs \<Longrightarrow> y \<in> set xs \<Longrightarrow> f x = f y \<Longrightarrow> x = y"
  by (auto simp: distinct_map dest: inj_onD)

lemma find_in_set: "find P xs = Some x \<Longrightarrow> x \<in> set xs \<and> P x"
  by (auto simp: find_Some_iff)

lemma findOne_credentials_stored:
  assumes "store_ok s" "a \<in> set (users s)"
  shows "findOne_credentials (users s) (u_email a) (u_password a) (u_role a) = Some a"
proof (cases "findOne_credentials (users s) (u_email a) (u_password a) (u_role a)")
  case None
  with assms(2) show ?thesis
    by (auto simp: findOne_credentials_def find_None_iff)
next
  case (Some u)
  then have "u \<in> set (users s)" "u_email u = u_email a"
    by (auto simp: findOne_credentials_def dest: find_in_set)
  moreover have "distinct (map u_email (users s))"
    using assms(1) by (simp add: store_ok_def)
  ultimately have "u = a"
    using assms(2) by (blast intro: distinct_map_eq)
  with Some show ?thesis by simp
qed

lemma findOne_credentials_None:
  "findOne_credentials us e p r = None \<longleftrightarrow>
     \<not> (\<exists>a \<in> set us. u_email a = e \<and> u_password a = p \<and> u_role a = r)"
  by (auto simp: findOne_credentials_def find_None_iff)

lemma res_json_login_response:
  assumes "validate_user a"
  shows "res_json (login_response a) =
       [(''success'', Val (JBool True)), (''fullname'', Val (JStr (u_fullname a))),
        (''email'', Val (JStr (u_email a))), (''role'', Val (JStr (u_role a)))] @
       (if u_role a = ''client'' then [(''goal'', Val (JStr (text_or_empty (u_goal a))))]
        else [(''specialization'', Val (JStr (text_or_empty (u_specialization a)))),
              (''experience'', Val (JStr (text_or_empty (u_experience a)))),
              (''certification'', Val (JStr (u_certification a)))])"
proof (cases "u_role a = ''client''")
  case True
  with assms obtain g where "u_goal a = Some g"
    by (cases "u_goal a") (auto simp: validate_user_def)
  with True show ?thesis
    by (simp add: login_response_def res_json_def opt_json_def)
next
  case False
  with assms have t: "u_role a = ''trainer''" by (auto simp: validate_user_def)
  with assms obtain sp ex where "u_specialization a = Some sp" "u_experience a = Some ex"
    by (cases "u_specialization a"; cases "u_experience a") (auto simp: validate_user_def)
  with t show ?thesis
    by (simp add: login_response_def res_json_def opt_json_def)
qed

lemma store_ok_two_users: "store_ok two_users"
  by (simp add: store_ok_def two_users_def empty_store_def trainer_doc_def client_doc_def
      validate_user_def)

text \<open>
  Claim C1. On a store written by these handlers (every account passed the schema's
  validation and emails are unique), a login whose email, password and role are exactly
  those of a stored account answers 200 and leaves the store as it is; the body holds
  \<open>success\<close> true, the account's full name, email and role, and then the goal of a
  client, or the specialization, experience and certification of a trainer. A login with
  the three fields present that no stored account equals on all three answers 400 with
  the invalid-credentials message.
\<close>

theorem login_exact_match:
  "(store_ok s \<and> a \<in> set (users s) \<and> login_email rq = Some (u_email a) \<and>
    login_password rq = Some (u_password a) \<and> login_role rq = Some (u_role a) \<longrightarrow>
      status (res (login s rq)) = 200 \<and> st (login s rq) = s \<and>
      (u_role a = ''client'' \<or> u_role a = ''trainer'') \<and>
      body (res (login s rq)) =
        [(''success'', Val (JBool True)), (''fullname'', Val (JStr (u_fullname a))),
         (''email'', Val (JStr (u_email a))), (''role'', Val (JStr (u_role a)))] @
        (if u_role a = ''client'' then [(''goal'', Val (JStr (text_or_empty (u_goal a))))]
         else [(''specialization'', Val (JStr (text_or_empty (u_specialization a)))),
               (''experience'', Val (JStr (text_or_empty (u_experience a)))),
               (''certification'', Val (JStr (u_certification a)))])) \<and>
   (present (login_email rq) \<and> present (login_password rq) \<and> present (login_role rq) \<and>
    \<not> (\<exists>a \<in> set (users s). login_email rq = Some (u_email a) \<and>
          login_password rq = Some (u_password a) \<and> login_role rq = Some (u_role a)) \<longrightarrow>
      status (res (login s rq)) = 400 \<and> st (login s rq) = s \<and>
      body (res (login s rq)) = msg ''Invalid credentials or role'')"
proof (intro conjI impI)
  assume h: "store_ok s \<and> a \<in> set (users s) \<and> login_email rq = Some (u_email a) \<and>
    login_password rq = Some (u_password a) \<and> login_role rq = Some (u_role a)"
  then have v: "validate_user a"
    by (auto simp: store_ok_def list_all_iff)
  then have ne: "u_email a \<noteq> []" "u_password a \<noteq> []" "u_role a \<noteq> []"
    by (auto simp: validate_user_def)
  have f: "findOne_credentials (users s) (u_email a) (u_password a) (u_role a) = Some a"
    using h by (simp add: findOne_credentials_stored)
  have l: "login s rq = reply 200 (login_response a) s [FindOne User]"
    using h ne f by (simp add: login_def)
  show "status (res (login s rq)) = 200" by (simp add: l)
  show "st (login s rq) = s" by (simp add: l)
  show "u_role a = ''client'' \<or> u_role a = ''trainer''"
    using v by (simp add: validate_user_def)
  show "body (res (login s rq)) =
        [(''success'', Val (JBool True)), (''fullname'', Val (JStr (u_fullname a))),
         (''email'', Val (JStr (u_email a))), (''role'', Val (JStr (u_role a)))] @
        (if u_role a = ''client'' then [(''goal'', Val (JStr (text_or_empty (u_goal a))))]
         else [(''specialization'', Val (JStr (text_or_empty (u_specialization a)))),
               (''experience'', Val (JStr (text_or_empty (u_experience a)))),
               (''certification'', Val (JStr (u_certification a)))])"
    using res_json_login_response [OF v] by (simp add: l)
next
  assume h: "present (login_email rq) \<and> present (login_password rq) \<and>
    present (login_role rq) \<and>
    \<not> (\<exists>a \<in> set (users s). login_email rq = Some (u_email a) \<and>
          login_password rq = Some (u_password a) \<and> login_role rq = Some (u_role a))"
  then have e: "login_email rq = Some (text_or_empty (login_email rq))"
    "login_password rq = Some (text_or_empty (login_password rq))"
    "login_role rq = Some (text_or_empty (login_role rq))"
    by (auto dest: present_text)
  have "findOne_credentials (users s) (text_or_empty (login_email rq))
      (text_or_empty (login_password rq)) (text_or_empty (login_role rq)) = None"
    unfolding findOne_credentials_None using h e by metis
  with h have l: "login s rq = reply 400 (msg ''Invalid credentials or role'') s [FindOne User]"
    by (simp add: login_def)
  show "status (res (login s rq)) = 400" by (simp add: l)
  show "st (login s rq) = s" by (simp add: l)
  show "body (res (login s rq)) = msg ''Invalid credentials or role''" by (simp add: l)
qed

theorem login_exact_match_witness:
  "store_ok two_users \<and> client_doc \<in> set (users two_users) \<and>
   status (res (login two_users
     \<lparr>login_email = Some ''c@x.com'', login_password = Some ''pw'',
      login_role = Some ''client''\<rparr>)) = 200 \<and>
   body (res (login two_users
     \<lparr>login_email = Some ''c@x.com'', login_password = Some ''pw'',
      login_role = Some ''client''\<rparr>)) =
     [(''success'', Val (JBool True)), (''fullname'', Val (JStr ''Cleo'')),
      (''email'', Val (JStr ''c@x.com'')), (''role'', Val (JStr ''client'')),
      (''goal'', Val (JStr ''G''))] \<and>
   status (res (login two_users
     \<lparr>login_email = Some ''c@x.com'', login_password = Some ''pw'',
      login_role = Some ''trainer''\<rparr>)) = 400"
proof -
  have m: "client_doc \<in> set (users two_users)"
    by (simp add: two_users_def empty_store_def)
  have n: "\<not> (\<exists>a \<in> set (users two_users). Some ''c@x.com'' = Some (u_email a) \<and>
      Some ''pw'' = Some (u_password a) \<and> Some ''trainer'' = Some (u_role a))"
    by (simp add: two_users_def empty_store_def trainer_doc_def client_doc_def)
  show ?thesis
    using login_exact_match [of two_users client_doc
        "\<lparr>login_email = Some ''c@x.com'', login_password = Some ''pw'',
          login_role = Some ''client''\<rparr>"]
      login_exact_match [of two_users client_doc
        "\<lparr>login_email = Some ''c@x.com'', login_password = Some ''pw'',
          login_role = Some ''trainer''\<rparr>"]
      store_ok_two_users m n
    by (simp add: client_doc_def)
qed

text \<open>
  Claim C10. Every login answered with 200 carries the response object of some stored
  account; none of its keys is \<open>password\<close>, all of them are among \<open>success\<close>,
  \<open>fullname\<close>, \<open>email\<close>, \<open>role\<close> and the fields of the role, and the response object
  of an account does not depend on the account's password.
\<close>

theorem login_password_absent:
  "(status (res (login s rq)) = 200 \<longrightarrow>
      (\<exists>u. u \<in> set (users s) \<and> body (res (login s rq)) = res_json (login_response u)) \<and>
      ''password'' \<notin> fst ` set (body (res (login s rq))) \<and>
      fst ` set (body (res (login s rq))) \<subseteq>
        {''success'', ''fullname'', ''email'', ''role'', ''goal'', ''specialization'',
         ''experience'', ''certification''}) \<and>
   login_response (u\<lparr>u_password := x\<rparr>) = login_response u"
proof (intro conjI impI)
  show "login_response (u\<lparr>u_password := x\<rparr>) = login_response u"
    by (simp add: login_response_def Let_def)
next
  assume ok: "status (res (login s rq)) = 200"
  then obtain a where a: "a \<in> set (users s)"
    and l: "login s rq = reply 200 (login_response a) s [FindOne User]"
    by (auto simp: login_def findOne_credentials_def split: if_splits option.splits
        dest: find_in_set)
  have keys: "fst ` set (res_json (login_response a)) \<subseteq>
      {''success'', ''fullname'', ''email'', ''role'', ''goal'', ''specialization'',
       ''experience'', ''certification''}"
    by (auto simp: res_json_def login_response_def Let_def split: if_splits)
  show "\<exists>u. u \<in> set (users s) \<and> body (res (login s rq)) = res_json (login_response u)"
    using a l by auto
  show "fst ` set (body (res (login s rq))) \<subseteq>
      {''success'', ''fullname'', ''email'', ''role'', ''goal'', ''specialization'',
       ''experience'', ''certification''}"
    using keys by (simp add: l)
  show "''password'' \<notin> fst ` set (body (res (login s rq)))"
    using keys by (auto simp: l)
qed

theorem login_password_absent_witness:
  "status (res (login two_users
     \<lparr>login_email = Some ''t@x.com'', login_password = Some ''pw'',
      login_role = Some ''trainer''\<rparr>)) = 200 \<and>
   ''password'' \<notin> fst ` set (body (res (login two_users
     \<lparr>login_email = Some ''t@x.com'', login_password = Some ''pw'',
      login_role = Some ''trainer''\<rparr>)))"
proof -
  have ok: "status (res (login two_users
     \<lparr>login_email = Some ''t@x.com'', login_password = Some ''pw'',
      login_role = Some ''trainer''\<rparr>)) = 200"
    by (simp add: login_def two_users_def empty_store_def trainer_doc_def client_doc_def
        findOne_credentials_def)
  show ?thesis
    using login_password_absent [of two_users
        "\<lparr>login_email = Some ''t@x.com'', login_password = Some ''pw'',
          login_role = Some ''trainer''\<rparr>"] ok
    by simp
qed

section \<open>Rounding to a double\<close>













section \<open>Reading numbers\<close>
















lemma log_workout_200:
  "status (res (log_workout s rq)) = 200 \<Longrightarrow>
     \<exists>d c. parseInt (wk_duration rq) = Some d \<and> parseInt (wk_calories rq) = Some c \<and>
       log_workout s rq =
         reply 200 [(''success'', Val (JBool True)), (''msg'', Val (JStr ''Workout logged''))]
           (s\<lparr>workouts := workouts s @
               [\<lparr>w_email = text_or_empty (wk_email rq), w_type = text_or_empty (wk_type rq),
                 w_duration = d, w_calories = c, w_date = text_or_empty (wk_date rq),
                 w_notes = text_or_empty (wk_notes rq)\<rparr>]\<rparr>)
           [Save Workout]"
  by (cases "parseInt (wk_duration rq)"; cases "parseInt (wk_calories rq)")
     (auto simp: log_workout_def split: if_splits simp del: parseInt.simps)


lemma store_metric_200:
  "status (res (store_metric s mq)) = 200 \<Longrightarrow>
     \<exists>w b f. castNumber (mt_weight mq) = Value w \<and> castNumber (mt_bmi mq) = Value b \<and>
       castNumber (or_zero (mt_fat mq)) = Value f \<and>
       store_metric s mq =
         reply 200 [(''success'', Val (JBool True)), (''msg'', Val (JStr ''Metrics updated''))]
           (s\<lparr>metrics := metrics s @
               [\<lparr>m_email = text_or_empty (mt_email mq), m_date = text_or_empty (mt_date mq),
                 m_weight = w, m_bmi = b, m_fat = f\<rparr>]\<rparr>)
           [Save Metrics]"
  by (cases "castNumber (mt_weight mq)"; cases "castNumber (mt_bmi mq)";
      cases "castNumber (or_zero (mt_fat mq))")
     (auto simp: store_metric_def split: if_splits simp del: castNumber.simps)



















section \<open>Numeric fields\<close>




section \<open>The store operations of a request\<close>

lemma findByIdAndUpdate_shape:
  "findByIdAndUpdate i f ps = ps \<or>
   (\<exists>k p. k < length ps \<and> findByIdAndUpdate i f ps = ps[k := p])"
proof (induction ps)
  case Nil
  then show ?case by simp
next
  case (Cons q qs)
  show ?case
  proof (cases "p_id q = i")
    case True
    have "f q # qs = (q # qs)[0 := f q]" by simp
    with True show ?thesis by (metis findByIdAndUpdate.simps(2) length_greater_0_conv list.discI)
  next
    case False
    from Cons.IH show ?thesis
    proof
      assume "findByIdAndUpdate i f qs = qs"
      with False show ?thesis by simp
    next
      assume "\<exists>k p. k < length qs \<and> findByIdAndUpdate i f qs = qs[k := p]"
      then obtain k p where "k < length qs" "findByIdAndUpdate i f qs = qs[k := p]" by blast
      with False have "Suc k < length (q # qs)"
        "findByIdAndUpdate i f (q # qs) = (q # qs)[Suc k := p]" by simp_all
      then show ?thesis by blast
    qed
  qed
qed

lemma findByIdAndDelete_shape:
  "findByIdAndDelete i ps = ps \<or>
   (\<exists>k. k < length ps \<and> findByIdAndDelete i ps = take k ps @ drop (Suc k) ps)"
proof (induction ps)
  case Nil
  then show ?case by simp
next
  case (Cons q qs)
  show ?case
  proof (cases "p_id q = i")
    case True
    then have "0 < length (q # qs)"
      "findByIdAndDelete i (q # qs) = take 0 (q # qs) @ drop (Suc 0) (q # qs)" by simp_all
    then show ?thesis by blast
  next
    case False
    from Cons.IH show ?thesis
    proof
      assume "findByIdAndDelete i qs = qs"
      with False show ?thesis by simp
    next
      assume "\<exists>k. k < length qs \<and> findByIdAndDelete i qs = take k qs @ drop (Suc k) qs"
      then obtain k where "k < length qs" "findByIdAndDelete i qs = take k qs @ drop (Suc k) qs"
        by blast
      with False have "Suc k < length (q # qs)"
        "findByIdAndDelete i (q # qs) = take (Suc k) (q # qs) @ drop (Suc (Suc k)) (q # qs)"
        by simp_all
      then show ?thesis by blast
    qed
  qed
qed

lemma register_outcomes:
  "register s rq =
     reply 400 (msg ''Full name, email, password, and role are required'') s [] \<or>
   register s rq = reply 400 (msg ''Fitness goal is required for client registration'') s [] \<or>
   register s rq =
     reply 400 (msg ''Specialization and experience are required for trainer registration'')
       s [] \<or>
   register s rq = reply 400 (msg ''User already exists'') s [FindOne User] \<or>
   register s rq = reply 500 server_error s [FindOne User, Save User] \<or>
   register s rq = reply 201 (msg ''Registered successfully'')
     (s\<lparr>users := users s @ [userData rq]\<rparr>) [FindOne User, Save User]"
  by (cases "findOne_email (users s) (text_or_empty (reg_email rq))")
     (simp_all add: register_def)

lemma login_outcomes:
  "login s rq = reply 400 (msg ''All fields are required'') s [] \<or>
   login s rq = reply 400 (msg ''Invalid credentials or role'') s [FindOne User] \<or>
   (\<exists>u. login s rq = reply 200 (login_response u) s [FindOne User])"
proof (cases "findOne_credentials (users s) (text_or_empty (login_email rq))
    (text_or_empty (login_password rq)) (text_or_empty (login_role rq))")
  case None
  then show ?thesis by (simp add: login_def)
next
  case (Some u)
  then have "login s rq = reply 400 (msg ''All fields are required'') s [] \<or>
    login s rq = reply 200 (login_response u) s [FindOne User]"
    by (simp add: login_def)
  then show ?thesis by blast
qed

lemma log_workout_outcomes:
  "log_workout s rq = reply 400 (msg ''All required fields are missing'') s [] \<or>
   log_workout s rq = reply 500 server_error s [Save Workout] \<or>
   (\<exists>w. log_workout s rq =
      reply 200 [(''success'', Val (JBool True)), (''msg'', Val (JStr ''Workout logged''))]
        (s\<lparr>workouts := workouts s @ [w]\<rparr>) [Save Workout])"
proof (cases "status (res (log_workout s rq)) = 200")
  case True
  then show ?thesis using log_workout_200 by blast
next
  case False
  have "status (res (log_workout s rq)) \<noteq> 200 \<longrightarrow>
      log_workout s rq = reply 400 (msg ''All required fields are missing'') s [] \<or>
      log_workout s rq = reply 500 server_error s [Save Workout]"
    by (cases "parseInt (wk_duration rq)"; cases "parseInt (wk_calories rq)")
       (simp_all add: log_workout_def del: parseInt.simps)
  with False show ?thesis by blast
qed

lemma store_metric_outcomes:
  "store_metric s rq = reply 400 (msg ''All required fields must be provided'') s [] \<or>
   store_metric s rq = reply 500 server_error s [Save Metrics] \<or>
   (\<exists>m. store_metric s rq =
      reply 200 [(''success'', Val (JBool True)), (''msg'', Val (JStr ''Metrics updated''))]
        (s\<lparr>metrics := metrics s @ [m]\<rparr>) [Save Metrics])"
proof (cases "status (res (store_metric s rq)) = 200")
  case True
  then show ?thesis using store_metric_200 by blast
next
  case False
  have "status (res (store_metric s rq)) \<noteq> 200 \<longrightarrow>
      store_metric s rq = reply 400 (msg ''All required fields must be provided'') s [] \<or>
      store_metric s rq = reply 500 server_error s [Save Metrics]"
    by (cases "castNumber (mt_weight rq)"; cases "castNumber (mt_bmi rq)";
        cases "castNumber (or_zero (mt_fat rq))")
       (simp_all add: store_metric_def del: castNumber.simps)
  with False show ?thesis by blast
qed

lemma assign_plan_outcomes:
  "assign_plan s rq = reply 400 (msg ''All fields are required'') s [] \<or>
   (\<exists>p. assign_plan s rq =
      reply 200 [(''success'', Val (JBool True)), (''msg'', Val (JStr ''Plan assigned''))]
        (s\<lparr>plans := plans s @ [p], next_id := Suc (next_id s)\<rparr>) [Save Plan])"
proof (cases "\<not> present (pl_trainer rq) \<or> \<not> present (pl_client rq) \<or> \<not> present (pl_plan rq)")
  case True
  then show ?thesis by (simp add: assign_plan_def)
next
  case False
  then have "assign_plan s rq =
      reply 200 [(''success'', Val (JBool True)), (''msg'', Val (JStr ''Plan assigned''))]
        (s\<lparr>plans := plans s @
              [\<lparr>p_id = next_id s, p_trainer = text_or_empty (pl_trainer rq),
                p_client = Some (text_or_empty (pl_client rq)),
                p_plan = Some (text_or_empty (pl_plan rq))\<rparr>],
             next_id := Suc (next_id s)\<rparr>) [Save Plan]"
    by (simp add: assign_plan_def)
  then show ?thesis by blast
qed

lemma msg_inject [simp]: "msg a = msg b \<longleftrightarrow> a = b"
  by (simp add: msg_def)

lemma res_json_server_error [simp]: "res_json server_error = server_error"
  by (simp add: res_json_def server_error_def)

lemma register_client_req:
  "register empty_store client_req =
     reply 201 (msg ''Registered successfully'') (empty_store\<lparr>users := [client_doc]\<rparr>)
       [FindOne User, Save User]"
proof -
  have "text_or_empty (reg_email client_req) \<notin> u_email ` set (users empty_store)"
    by (simp add: empty_store_def)
  moreover have "userData client_req = client_doc"
    by (simp add: userData_def client_req_def client_doc_def)
  moreover have "users empty_store = []" by (simp add: empty_store_def)
  ultimately show ?thesis
    by (simp add: register_complete [OF reg_complete_client_req])
qed

text \<open>
  Claim C7, as the code has it. A request makes no store call, or one, or, for a
  registration, the two calls \<^verbatim>\<open>findOne\<close> and \<^verbatim>\<open>save\<close>; every call is on the one model of
  the endpoint. It makes none exactly when it is an echo or a logout or is answered 400
  for a missing field, and then the store is unchanged. A request changes no collection
  but that of its endpoint, and there it writes at most one record: it appends one,
  replaces one or removes one. A listing makes one call and returns every record with
  the given key; an update and a deletion make one call. A \<^verbatim>\<open>save\<close> that the schema's
  validation refuses counts as a call.
\<close>

theorem router_store_operations:
  "(ops (router s rq) = [] \<or> (\<exists>c. ops (router s rq) = [c]) \<or>
    (\<exists>m. rq = PostRegister m) \<and> ops (router s rq) = [FindOne User, Save User]) \<and>
   list_all (\<lambda>c. op_model c = endpoint_model rq) (ops (router s rq)) \<and>
   (ops (router s rq) = [] \<longleftrightarrow>
      (\<exists>b. rq = PostTest b) \<or> rq = PostLogout \<or>
      status (res (router s rq)) = 400 \<and>
      body (res (router s rq)) \<noteq> msg ''User already exists'' \<and>
      body (res (router s rq)) \<noteq> msg ''Invalid credentials or role'') \<and>
   (ops (router s rq) = [] \<longrightarrow> st (router s rq) = s) \<and>
   (endpoint_model rq = User \<or> users (st (router s rq)) = users s) \<and>
   (endpoint_model rq = Workout \<or> workouts (st (router s rq)) = workouts s) \<and>
   (endpoint_model rq = Metrics \<or> metrics (st (router s rq)) = metrics s) \<and>
   (endpoint_model rq = Plan \<or> plans (st (router s rq)) = plans s) \<and>
   (users (st (router s rq)) = users s \<or>
    (\<exists>u. users (st (router s rq)) = users s @ [u])) \<and>
   (workouts (st (router s rq)) = workouts s \<or>
    (\<exists>w. workouts (st (router s rq)) = workouts s @ [w])) \<and>
   (metrics (st (router s rq)) = metrics s \<or>
    (\<exists>m. metrics (st (router s rq)) = metrics s @ [m])) \<and>
   (plans (st (router s rq)) = plans s \<or>
    (\<exists>p. plans (st (router s rq)) = plans s @ [p]) \<or>
    (\<exists>k p. k < length (plans s) \<and> plans (st (router s rq)) = (plans s)[k := p]) \<or>
    (\<exists>k. k < length (plans s) \<and>
         plans (st (router s rq)) = take k (plans s) @ drop (Suc k) (plans s))) \<and>
   (case rq of
      GetWorkouts email \<Rightarrow>
        ops (router s rq) = [Find Workout] \<and>
        body (res (router s rq)) =
          [(''success'', Val (JBool True)),
           (''workouts'', WorkoutDocs (filter (\<lambda>w. w_email w = email) (workouts s)))]
    | GetMetrics email \<Rightarrow>
        ops (router s rq) = [Find Metrics] \<and>
        body (res (router s rq)) =
          [(''success'', Val (JBool True)),
           (''metrics'', MetricDocs (filter (\<lambda>m. m_email m = email) (metrics s)))]
    | GetPlans trainer \<Rightarrow>
        ops (router s rq) = [Find Plan] \<and>
        body (res (router s rq)) =
          [(''success'', Val (JBool True)),
           (''plans'', PlanDocs (filter (\<lambda>p. p_trainer p = trainer) (plans s)))]
    | PutPlan i u \<Rightarrow> ops (router s rq) = [FindByIdAndUpdate Plan]
    | DeletePlan i \<Rightarrow> ops (router s rq) = [FindByIdAndDelete Plan]
    | _ \<Rightarrow> True)"
proof (cases rq)
  case (PostRegister m)
  show ?thesis
    unfolding PostRegister using register_outcomes [of s m]
    by (elim disjE) (simp_all add: server_error_def)
next
  case (PostLogin m)
  show ?thesis
    unfolding PostLogin using login_outcomes [of s m]
    by (elim disjE exE) simp_all
next
  case (PostLogWorkout m)
  show ?thesis
    unfolding PostLogWorkout using log_workout_outcomes [of s m]
    by (elim disjE exE) (simp_all add: server_error_def)
next
  case (GetWorkouts e)
  show ?thesis
    unfolding GetWorkouts by (simp add: get_workouts_def res_json_def)
next
  case (PostMetrics m)
  show ?thesis
    unfolding PostMetrics using store_metric_outcomes [of s m]
    by (elim disjE exE) (simp_all add: server_error_def)
next
  case (GetMetrics e)
  show ?thesis
    unfolding GetMetrics by (simp add: get_metrics_def res_json_def)
next
  case (PostPlans m)
  show ?thesis
    unfolding PostPlans using assign_plan_outcomes [of s m]
    by (elim disjE exE) simp_all
next
  case (GetPlans t)
  show ?thesis
    unfolding GetPlans by (simp add: get_plans_def res_json_def)
next
  case (PutPlan i u)
  show ?thesis
    unfolding PutPlan using findByIdAndUpdate_shape [of i "apply_update u" "plans s"]
    by (simp add: update_plan_def) blast
next
  case (DeletePlan i)
  show ?thesis
    unfolding DeletePlan using findByIdAndDelete_shape [of i "plans s"]
    by (simp add: delete_plan_def) blast
next
  case (PostTest b)
  show ?thesis
    unfolding PostTest by (simp add: test_endpoint_def)
next
  case PostLogout
  show ?thesis
    unfolding PostLogout by (simp add: logout_def)
qed

theorem router_store_operations_witness:
  "ops (router empty_store PostLogout) = [] \<and>
   st (router empty_store PostLogout) = empty_store \<and>
   ops (router empty_store (PostRegister client_req)) = [FindOne User, Save User] \<and>
   users (st (router empty_store (PostRegister client_req))) = [client_doc] \<and>
   plans (st (router empty_store (PostRegister client_req))) = plans empty_store"
proof -
  have a: "ops (router empty_store PostLogout) = []"
    by (simp add: logout_def)
  have b: "ops (router empty_store (PostRegister client_req)) = [FindOne User, Save User]"
    "users (st (router empty_store (PostRegister client_req))) = [client_doc]"
    by (simp_all add: register_client_req)
  from a router_store_operations [of empty_store PostLogout]
  have c: "st (router empty_store PostLogout) = empty_store" by blast
  from router_store_operations [of empty_store "PostRegister client_req"]
  have d: "plans (st (router empty_store (PostRegister client_req))) = plans empty_store"
    by simp
  show ?thesis using a b c d by simp
qed

text \<open>
  The claim as stated, exactly one store operation on exactly one record for every
  request, fails in each direction: a registration that succeeds looks the email up and
  then saves; a registration without its goal, and a logout, make no call; one listing
  returns two records; and a deletion by an identifier that no plan has changes none.
\<close>

theorem router_store_operations_counterexample:
  "ops (router empty_store (PostRegister client_req)) = [FindOne User, Save User] \<and>
   ops (router empty_store (PostRegister (client_req\<lparr>reg_goal := None\<rparr>))) = [] \<and>
   ops (router empty_store PostLogout) = [] \<and>
   ops (router two_plans (GetPlans ''t@x.com'')) = [Find Plan] \<and>
   body (res (router two_plans (GetPlans ''t@x.com''))) =
     [(''success'', Val (JBool True)), (''plans'', PlanDocs [plan_a, plan_b])] \<and>
   ops (router two_plans (DeletePlan 7)) = [FindByIdAndDelete Plan] \<and>
   st (router two_plans (DeletePlan 7)) = two_plans"
proof -
  have a: "ops (router empty_store (PostRegister client_req)) = [FindOne User, Save User]"
    by (simp add: register_client_req)
  have b: "ops (router empty_store (PostRegister (client_req\<lparr>reg_goal := None\<rparr>))) = []"
    by (simp add: register_def client_req_def)
  have c: "ops (router empty_store PostLogout) = []"
    by (simp add: logout_def)
  have p: "plans two_plans = [plan_a, plan_b]"
    by (simp add: two_plans_def empty_store_def)
  have d: "ops (router two_plans (GetPlans ''t@x.com'')) = [Find Plan]"
    "body (res (router two_plans (GetPlans ''t@x.com''))) =
     [(''success'', Val (JBool True)), (''plans'', PlanDocs [plan_a, plan_b])]"
    by (simp_all add: get_plans_def p res_json_def) (simp add: plan_a_def plan_b_def)
  have e: "ops (router two_plans (DeletePlan 7)) = [FindByIdAndDelete Plan]"
    "st (router two_plans (DeletePlan 7)) = two_plans"
    by (simp_all add: delete_plan_def p) (simp_all add: plan_a_def plan_b_def)
  show ?thesis using a b c d e by simp
qed

end
